theory Spec2Isabelle
  imports Complex_Main "HOL-Library.AList"
begin

section \<open>Conventions\<close>

text \<open>
  JavaScript numbers are modelled as exact reals: rounding, NaN and the infinities of IEEE
  doubles are outside the model. A value that is either \<open>null\<close> or a number is a
  \<open>real option\<close>. Wall-clock reads (\<open>Date.now()\<close>) are parameters of the operations.
  Human-readable reason strings are modelled by a tag naming the branch that built them.
\<close>

definition num :: "real option \<Rightarrow> real" where
  \<comment> \<open>ToNumber on a number-or-null: \<open>null\<close> coerces to 0 in arithmetic and comparisons.\<close>
  "num v = (case v of None \<Rightarrow> 0 | Some x \<Rightarrow> x)"

definition or_zero :: "real option \<Rightarrow> real" where
  \<comment> \<open>\<open>x || 0\<close> on a number-or-null: \<open>null\<close> and 0 are falsy and give 0.\<close>
  "or_zero v = (case v of None \<Rightarrow> 0 | Some x \<Rightarrow> if x = 0 then 0 else x)"

definition truthy :: "real option \<Rightarrow> bool" where
  \<comment> \<open>Truthiness of a number-or-null: \<open>null\<close> and 0 are falsy.\<close>
  "truthy v = (case v of None \<Rightarrow> False | Some x \<Rightarrow> x \<noteq> 0)"

datatype error = TypeError

section \<open>Strategy (decision engine)\<close>

datatype side = Long | Short

datatype level = Long1 | Long2 | Short1 | Short2

datatype action = Enter | Add | Close | ActionNone | ActionNull

datatype exit_type = StopLoss | TakeProfit | Manual

datatype reason =
    WaitingNeutralReentry
  | InsufficientHistory
  | Short1Met | Long1Met | NoEntryMet
  | Short2Met | Long2Met | NoAddMet
  | NoPositionToExit | TakeProfitHit | StopLossAbsolute | NoExitMet
  | KillSwitch | TrackerRestart

record signal =
  action :: action
  sig_type :: "side option"
  sig_level :: "level option"
  exitType :: "exit_type option"
  reason :: reason

definition plain_signal :: "action \<Rightarrow> reason \<Rightarrow> signal" where
  \<comment> \<open>An object literal \<open>{ action, reason }\<close> with no type, level or exitType.\<close>
  "plain_signal a r =
     \<lparr>action = a, sig_type = None, sig_level = None, exitType = None, reason = r\<rparr>"

definition entry_signal :: "action \<Rightarrow> side \<Rightarrow> level \<Rightarrow> reason \<Rightarrow> signal" where
  "entry_signal a t l r =
     \<lparr>action = a, sig_type = Some t, sig_level = Some l, exitType = None, reason = r\<rparr>"

definition close_signal :: "exit_type \<Rightarrow> reason \<Rightarrow> signal" where
  "close_signal e r =
     \<lparr>action = Close, sig_type = None, sig_level = None, exitType = Some e, reason = r\<rparr>"

record percentile_stats =
  percentile90Percent :: "real option"
  percentile95Percent :: "real option"
  percentile10Percent :: "real option"
  percentile5Percent :: "real option"

text \<open>The fields of a stats snapshot that the strategy and the update handler read;
  \<open>deviationStats\<close> is \<open>stats.deviationHistory?.stats\<close>.\<close>

record stats =
  currentPrice :: "real option"
  deviationPercent :: "real option"
  deviationStats :: "percentile_stats option"

text \<open>The fields of a position object that the strategy reads.\<close>

record position_view =
  view_type :: "side option"
  view_totalContractCount :: nat
  view_entryLevels :: "level option list"

record strategy =
  waitingForNeutralReentry :: "side option"

definition SHORT1_THRESHOLD_PERCENT :: real where "SHORT1_THRESHOLD_PERCENT = 0.6"
definition SHORT2_THRESHOLD_PERCENT :: real where "SHORT2_THRESHOLD_PERCENT = 0.75"
definition LONG1_THRESHOLD_PERCENT :: real where "LONG1_THRESHOLD_PERCENT = - 0.75"
definition LONG2_THRESHOLD_PERCENT :: real where "LONG2_THRESHOLD_PERCENT = - 0.9"
definition TAKE_PROFIT_THRESHOLD :: real where "TAKE_PROFIT_THRESHOLD = 0.1"
definition SHORT_STOP_LOSS_ABSOLUTE :: real where "SHORT_STOP_LOSS_ABSOLUTE = 2.25"
definition LONG_STOP_LOSS_ABSOLUTE :: real where "LONG_STOP_LOSS_ABSOLUTE = - 2.4"
definition NEUTRAL_MIN :: real where "NEUTRAL_MIN = - 0.75"
definition NEUTRAL_MAX :: real where "NEUTRAL_MAX = 0.6"

definition new_strategy :: strategy where
  "new_strategy = \<lparr>waitingForNeutralReentry = None\<rparr>"

definition in_neutral_range :: "real option \<Rightarrow> bool" where
  \<comment> \<open>\<open>deviation >= NEUTRAL_MIN && deviation <= NEUTRAL_MAX\<close>\<close>
  "in_neutral_range deviation =
     (NEUTRAL_MIN \<le> num deviation \<and> num deviation \<le> NEUTRAL_MAX)"

text \<open>
  \<open>evaluateEntry\<close> is modelled in two parts. \<open>evaluateEntry_rules\<close> is the body after the
  reentry check (from \<open>if (!percentiles)\<close> to the end): it reads no strategy state and
  raises nothing. \<open>evaluateEntry\<close> is the reentry check in front of it. It returns the signal
  (or the TypeError that \<open>deviation.toFixed\<close> raises on a \<open>null\<close> deviation while logging
  the cleared flag) together with the strategy after the call. The flag is cleared before
  the log line runs, so the error path keeps the cleared flag.
\<close>

definition evaluateEntry_rules :: "stats \<Rightarrow> position_view option \<Rightarrow> signal" where
  "evaluateEntry_rules st currentPosition =
    (let deviation = deviationPercent st in
     case deviationStats st of
       None \<Rightarrow> plain_signal ActionNull InsufficientHistory
     | Some pc \<Rightarrow>
         let p90 = or_zero (percentile90Percent pc);
             p95 = or_zero (percentile95Percent pc);
             p10 = or_zero (percentile10Percent pc);
             p5 = or_zero (percentile5Percent pc)
         in
         (case currentPosition of
            None \<Rightarrow>
              if num deviation \<ge> max p90 SHORT1_THRESHOLD_PERCENT then
                entry_signal Enter Short Short1 Short1Met
              else if num deviation \<le> min p10 LONG1_THRESHOLD_PERCENT then
                entry_signal Enter Long Long1 Long1Met
              else plain_signal ActionNull NoEntryMet
          | Some pos \<Rightarrow>
              if view_type pos = Some Short then
                (if view_totalContractCount pos = 1 \<and> Some Short1 \<in> set (view_entryLevels pos)
                    \<and> num deviation \<ge> max p95 SHORT2_THRESHOLD_PERCENT
                 then entry_signal Add Short Short2 Short2Met
                 else plain_signal ActionNull NoAddMet)
              else if view_type pos = Some Long then
                (if view_totalContractCount pos = 1 \<and> Some Long1 \<in> set (view_entryLevels pos)
                    \<and> num deviation \<le> min p5 LONG2_THRESHOLD_PERCENT
                 then entry_signal Add Long Long2 Long2Met
                 else plain_signal ActionNull NoAddMet)
              else plain_signal ActionNull NoAddMet))"

definition evaluateEntry ::
  "stats \<Rightarrow> position_view option \<Rightarrow> strategy \<Rightarrow> (error + signal) \<times> strategy" where
  "evaluateEntry st currentPosition s =
    (let deviation = deviationPercent st;
         waiting = (waitingForNeutralReentry s \<noteq> None)
     in
     if waiting \<and> \<not> in_neutral_range deviation then
       (Inr (plain_signal ActionNone WaitingNeutralReentry), s)
     else if waiting \<and> deviation = None then
       (Inl TypeError, s\<lparr>waitingForNeutralReentry := None\<rparr>)
     else
       (Inr (evaluateEntry_rules st currentPosition),
        if waiting then s\<lparr>waitingForNeutralReentry := None\<rparr> else s))"

definition evaluateExit ::
  "stats \<Rightarrow> position_view option \<Rightarrow> strategy \<Rightarrow> signal \<times> strategy" where
  "evaluateExit st currentPosition s =
    (case currentPosition of
       None \<Rightarrow> (plain_signal ActionNull NoPositionToExit, s)
     | Some pos \<Rightarrow>
         let deviation = deviationPercent st in
         (case deviationStats st of
            None \<Rightarrow> (plain_signal ActionNull InsufficientHistory, s)
          | Some pc \<Rightarrow>
              if \<bar>num deviation\<bar> < TAKE_PROFIT_THRESHOLD then
                (close_signal TakeProfit TakeProfitHit, s)
              else if view_type pos = Some Short then
                (if num deviation \<ge> SHORT_STOP_LOSS_ABSOLUTE then
                   (close_signal StopLoss StopLossAbsolute,
                    s\<lparr>waitingForNeutralReentry := Some Short\<rparr>)
                 else (plain_signal ActionNull NoExitMet, s))
              else if view_type pos = Some Long then
                (if num deviation \<le> LONG_STOP_LOSS_ABSOLUTE then
                   (close_signal StopLoss StopLossAbsolute,
                    s\<lparr>waitingForNeutralReentry := Some Long\<rparr>)
                 else (plain_signal ActionNull NoExitMet, s))
              else (plain_signal ActionNull NoExitMet, s)))"

section \<open>Paper-trading ledger\<close>

text \<open>
  The \<open>entryLevels\<close> and \<open>entries\<close> arrays of a position are JavaScript arrays that the
  position object, the shallow copies \<open>{ ...this.currentPosition }\<close> kept in the trade log and
  the exit record all share: an add pushes onto the same arrays that an earlier log entry
  points to. A position therefore holds the addresses of its two arrays, and the ledger
  carries the store of all arrays allocated so far (address = index in the store).
  The three \<open>Date.now()\<close> reads of one call are modelled by one parameter \<open>now\<close>.
\<close>

record entry =
  entry_level :: "level option"
  contractCount :: nat
  sizeInBTC :: real
  entryPrice :: real
  entryDeviation :: "real option"
  entryTime :: int
  fee :: real

record position =
  pos_type :: "side option"
  totalContractCount :: nat
  totalSizeInBTC :: real
  entryLevels :: nat
  entries :: nat
  avgEntryPrice :: real
  totalEntryFees :: real
  openedAt :: int

record exit_record =
  exitPrice :: real
  exitDeviation :: "real option"
  exitTime :: int
  exitFee :: real
  grossPnL :: real
  netPnL :: real
  exit_entryLevels :: nat
  exit_avgEntryPrice :: real
  exit_contractCount :: nat
  exit_sizeInBTC :: real

datatype trade_log =
    EnterLog signal entry position int
  | ExitLog signal exit_record position int

record ledger =
  initialBalance :: real
  cashBalance :: real
  currentPosition :: "position option"
  tradeHistory :: "trade_log list"
  totalRealizedPnL :: real
  levelArrays :: "level option list list"
  entryArrays :: "entry list list"

datatype enter_result =
    InsufficientFunds real real
  | EnterSuccess position entry

datatype close_result =
    NoPositionToClose
  | CloseSuccess position exit_record real

definition CONTRACT_SIZE :: real where "CONTRACT_SIZE = 0.01"
definition TRADING_FEE :: real where "TRADING_FEE = 0.00065"
definition SLIPPAGE :: real where "SLIPPAGE = 0.0005"

definition new_paper_trading :: "real \<Rightarrow> ledger" where
  "new_paper_trading initial =
     \<lparr>initialBalance = initial, cashBalance = initial, currentPosition = None,
      tradeHistory = [], totalRealizedPnL = 0, levelArrays = [], entryArrays = []\<rparr>"

definition push :: "nat \<Rightarrow> 'a \<Rightarrow> 'a list list \<Rightarrow> 'a list list" where
  \<comment> \<open>\<open>array.push(x)\<close> on the array stored at address \<open>a\<close>.\<close>
  "push a x store = store[a := store ! a @ [x]]"

definition enterPosition ::
  "signal \<Rightarrow> real \<Rightarrow> real option \<Rightarrow> int \<Rightarrow> ledger \<Rightarrow> enter_result \<times> ledger" where
  "enterPosition sg price currentDeviation now l =
    (let count = (1::nat);
         size = real count * CONTRACT_SIZE;
         slippageMultiplier = (if sig_type sg = Some Long then 1 + SLIPPAGE else 1 - SLIPPAGE);
         executionPrice = price * slippageMultiplier;
         orderValue = size * executionPrice;
         fee' = orderValue * TRADING_FEE;
         totalCost = orderValue + fee'
     in
     if sig_type sg = Some Long \<and> cashBalance l < totalCost then
       (InsufficientFunds totalCost (cashBalance l), l)
     else
       let e = \<lparr>entry_level = sig_level sg, contractCount = count, sizeInBTC = size,
                entryPrice = executionPrice, entryDeviation = currentDeviation,
                entryTime = now, fee = fee'\<rparr>;
           debit = (if sig_type sg = Some Long then totalCost else fee');
           (pos, lvls, ents) =
             (case currentPosition l of
                None \<Rightarrow>
                  (\<lparr>pos_type = sig_type sg, totalContractCount = count,
                    totalSizeInBTC = size,
                    entryLevels = length (levelArrays l),
                    entries = length (entryArrays l),
                    avgEntryPrice = executionPrice, totalEntryFees = fee',
                    openedAt = now\<rparr>,
                   levelArrays l @ [[sig_level sg]],
                   entryArrays l @ [[e]])
              | Some p \<Rightarrow>
                  let lvls' = push (entryLevels p) (sig_level sg) (levelArrays l);
                      ents' = push (entries p) e (entryArrays l);
                      newSize = totalSizeInBTC p + size;
                      totalValue =
                        foldl (\<lambda>sum x. sum + entryPrice x * sizeInBTC x) 0 (ents' ! entries p)
                  in
                  (p\<lparr>totalContractCount := totalContractCount p + count,
                     totalSizeInBTC := newSize,
                     avgEntryPrice := totalValue / newSize,
                     totalEntryFees := totalEntryFees p + fee'\<rparr>,
                   lvls', ents'))
       in
       (EnterSuccess pos e,
        l\<lparr>currentPosition := Some pos,
          levelArrays := lvls,
          entryArrays := ents,
          cashBalance := cashBalance l - debit,
          tradeHistory := tradeHistory l @ [EnterLog sg e pos now]\<rparr>))"

definition closePosition ::
  "signal \<Rightarrow> real \<Rightarrow> real option \<Rightarrow> int \<Rightarrow> ledger \<Rightarrow> close_result \<times> ledger" where
  "closePosition exitSignal price currentDeviation now l =
    (case currentPosition l of
       None \<Rightarrow> (NoPositionToClose, l)
     | Some p \<Rightarrow>
         let size = totalSizeInBTC p;
             slippageMultiplier = (if pos_type p = Some Long then 1 - SLIPPAGE else 1 + SLIPPAGE);
             executionPrice = price * slippageMultiplier;
             gross = (if pos_type p = Some Long
                      then (executionPrice - avgEntryPrice p) * size
                      else (avgEntryPrice p - executionPrice) * size);
             exitValue = size * executionPrice;
             exitFee' = exitValue * TRADING_FEE;
             net = gross - totalEntryFees p - exitFee';
             credit = (if pos_type p = Some Long then exitValue - exitFee'
                       else avgEntryPrice p * size - exitFee');
             ex = \<lparr>exitPrice = executionPrice, exitDeviation = currentDeviation,
                   exitTime = now, exitFee = exitFee', grossPnL = gross, netPnL = net,
                   exit_entryLevels = entryLevels p, exit_avgEntryPrice = avgEntryPrice p,
                   exit_contractCount = totalContractCount p, exit_sizeInBTC = size\<rparr>
         in
         (CloseSuccess p ex net,
          l\<lparr>cashBalance := cashBalance l + credit,
            totalRealizedPnL := totalRealizedPnL l + net,
            tradeHistory := tradeHistory l @ [ExitLog exitSignal ex p now],
            currentPosition := None\<rparr>))"

definition getPosition :: "ledger \<Rightarrow> position_view option" where
  \<comment> \<open>The current position as the strategy reads it: its \<open>entryLevels\<close> array is looked up
      in the store.\<close>
  "getPosition l =
     (case currentPosition l of
        None \<Rightarrow> None
      | Some p \<Rightarrow> Some \<lparr>view_type = pos_type p,
                        view_totalContractCount = totalContractCount p,
                        view_entryLevels = levelArrays l ! entryLevels p\<rparr>)"

section \<open>Update handler (strategy and ledger per snapshot)\<close>

text \<open>
  The server owns one strategy, one ledger and the \<open>algorithmRunning\<close> switch. On every
  snapshot it evaluates the exit rules on the open position, closes if told to, then
  evaluates the entry rules on the position that is left and enters or adds if told to.
  \<open>stats.currentPrice\<close> reaches the ledger's multiplication, where \<open>null\<close> counts as 0.
  An exception raised by \<open>evaluateEntry\<close> ends the handler after the exit step.
  The calls that only read (\<open>updatePosition\<close>, \<open>getStopLossLevels\<close>, \<open>getPerformance\<close>
  and the broadcast) change no state and are left out.
\<close>

record system =
  strat :: strategy
  paperTrading :: ledger
  algorithmRunning :: bool

definition new_system :: system where
  "new_system =
     \<lparr>strat = new_strategy, paperTrading = new_paper_trading 10000, algorithmRunning = False\<rparr>"

definition on_update :: "stats \<Rightarrow> int \<Rightarrow> system \<Rightarrow> system" where
  "on_update st now sys =
    (if \<not> algorithmRunning sys then sys
     else
       let (s1, l1) =
             (case getPosition (paperTrading sys) of
                None \<Rightarrow> (strat sys, paperTrading sys)
              | Some pv \<Rightarrow>
                  let (exitSignal, s') = evaluateExit st (Some pv) (strat sys) in
                  if action exitSignal = Close then
                    (s', snd (closePosition exitSignal (num (currentPrice st))
                                (deviationPercent st) now (paperTrading sys)))
                  else (s', paperTrading sys));
           (r, s2) = evaluateEntry st (getPosition l1) s1
       in
       (case r of
          Inl err \<Rightarrow> sys\<lparr>strat := s2, paperTrading := l1\<rparr>
        | Inr entrySignal \<Rightarrow>
            if action entrySignal = Enter \<or> action entrySignal = Add then
              sys\<lparr>strat := s2,
                  paperTrading := snd (enterPosition entrySignal (num (currentPrice st))
                                         (deviationPercent st) now l1)\<rparr>
            else sys\<lparr>strat := s2, paperTrading := l1\<rparr>))"

definition manual_close :: "reason \<Rightarrow> stats \<Rightarrow> int \<Rightarrow> system \<Rightarrow> system" where
  \<comment> \<open>The kill switch and the restart endpoint: close any open position with a manual exit
      signal and stop the algorithm.\<close>
  "manual_close why st now sys =
     (let l = (case currentPosition (paperTrading sys) of
                 None \<Rightarrow> paperTrading sys
               | Some p \<Rightarrow>
                   snd (closePosition (close_signal Manual why) (num (currentPrice st))
                          (deviationPercent st) now (paperTrading sys)))
      in sys\<lparr>paperTrading := l, algorithmRunning := False\<rparr>)"

datatype event =
    Update stats int
  | AlgorithmStart
  | AlgorithmStop stats int
  | Restart stats int

fun handle :: "event \<Rightarrow> system \<Rightarrow> system" where
  "handle (Update st now) sys = on_update st now sys"
| "handle AlgorithmStart sys = sys\<lparr>algorithmRunning := True\<rparr>"
| "handle (AlgorithmStop st now) sys = manual_close KillSwitch st now sys"
| "handle (Restart st now) sys = manual_close TrackerRestart st now sys"

definition run_events :: "event list \<Rightarrow> system \<Rightarrow> system" where
  "run_events evs sys = fold handle evs sys"

section \<open>Rolling VWAP aggregator\<close>

text \<open>
  A feed candle after \<open>parseInt\<close>/\<open>parseFloat\<close> of its fields is a \<open>bar\<close>; the object stored
  in the \<open>candles\<close> map is a \<open>candle\<close>. The map is an association list in insertion order, as
  a JavaScript \<open>Map\<close> iterates: \<open>AList.update\<close> overwrites a present key in place and appends
  a new one, \<open>AList.delete\<close> removes a key. Times are unix seconds; \<open>nowms\<close> is the
  \<open>Date.now()\<close> of the call in milliseconds. The running totals are exact reals here;
  the source accumulates them in doubles, so what depends on their rounding (the drift of
  the totals after a subtraction) is not visible in the model.
\<close>

record bar =
  bar_start :: int
  bar_high :: real
  bar_low :: real
  bar_close :: real
  bar_volume :: real

record candle =
  start :: int
  high :: real
  low :: real
  close :: real
  volume :: real
  typicalPrice :: real
  priceVolume :: real

record snapshot =
  timestamp :: int
  price :: real
  vwap :: real
  deviation :: real
  snap_deviationPercent :: real

record rolling_vwap =
  windowHours :: real
  deviationHistoryWindowHours :: real
  candleIntervalSeconds :: real
  maxCandles :: real
  candles :: "(int \<times> candle) list"
  totalPriceVolume :: real
  totalVolume :: real
  currentVWAP :: "real option"
  rv_currentPrice :: "real option"
  lastUpdate :: "int option"
  currentCandleStart :: "int option"
  deviationHistory :: "snapshot list"

datatype js_number = Null | Undefined | Number real

definition new_rolling_vwap :: "real \<Rightarrow> real \<Rightarrow> rolling_vwap" where
  "new_rolling_vwap wHours dHours =
     \<lparr>windowHours = wHours, deviationHistoryWindowHours = dHours,
      candleIntervalSeconds = 300, maxCandles = (wHours * 60 * 60) / 300,
      candles = [], totalPriceVolume = 0, totalVolume = 0,
      currentVWAP = None, rv_currentPrice = None, lastUpdate = None,
      currentCandleStart = None, deviationHistory = []\<rparr>"

definition updateStats :: "rolling_vwap \<Rightarrow> rolling_vwap" where
  "updateStats s =
     (if totalVolume s > 0
      then s\<lparr>currentVWAP := Some (totalPriceVolume s / totalVolume s)\<rparr>
      else s\<lparr>currentVWAP := None\<rparr>)"

definition updatePrice :: "real \<Rightarrow> int \<Rightarrow> rolling_vwap \<Rightarrow> rolling_vwap" where
  "updatePrice p nowms s = s\<lparr>rv_currentPrice := Some p, lastUpdate := Some nowms\<rparr>"

definition getDeviation :: "rolling_vwap \<Rightarrow> real option" where
  "getDeviation s =
     (if \<not> truthy (currentVWAP s) \<or> \<not> truthy (rv_currentPrice s) then None
      else Some (the (rv_currentPrice s) - the (currentVWAP s)))"

definition getDeviationPercent :: "rolling_vwap \<Rightarrow> real option" where
  "getDeviationPercent s =
     (if \<not> truthy (currentVWAP s) \<or> \<not> truthy (rv_currentPrice s) then None
      else Some (((the (rv_currentPrice s) - the (currentVWAP s)) / the (currentVWAP s)) * 100))"

definition percentile :: "real list \<Rightarrow> real \<Rightarrow> js_number" where
  \<comment> \<open>The closure of \<open>getDeviationStats\<close>; an array read at a negative index is
      \<open>undefined\<close>.\<close>
  "percentile arr p =
     (if length arr = 0 then Null
      else
        let index = \<lfloor>(p / 100) * real (length arr)\<rfloor>;
            i = min index (int (length arr) - 1)
        in if 0 \<le> i then Number (arr ! nat i) else Undefined)"

definition findIndex :: "('a \<Rightarrow> bool) \<Rightarrow> 'a list \<Rightarrow> nat option" where
  \<comment> \<open>\<open>Array.prototype.findIndex\<close>; \<open>None\<close> stands for -1.\<close>
  "findIndex P xs =
     (if \<exists>x \<in> set xs. P x then Some (length (takeWhile (\<lambda>x. \<not> P x) xs)) else None)"

definition recordDeviation :: "int \<Rightarrow> rolling_vwap \<Rightarrow> rolling_vwap" where
  "recordDeviation nowms s =
     (if \<not> truthy (currentVWAP s) \<or> \<not> truthy (rv_currentPrice s)
         \<or> currentCandleStart s = None \<or> currentCandleStart s = Some 0
      then s
      else
        let v = the (currentVWAP s);
            p = the (rv_currentPrice s);
            dev = p - v;
            devPercent = (dev / v) * 100;
            candleTimestamp = the (currentCandleStart s);
            snap = \<lparr>timestamp = candleTimestamp, price = p, vwap = v, deviation = dev,
                     snap_deviationPercent = devPercent\<rparr>;
            hist = (case findIndex (\<lambda>d. timestamp d = candleTimestamp) (deviationHistory s) of
                      Some existingIndex \<Rightarrow> (deviationHistory s)[existingIndex := snap]
                    | None \<Rightarrow> sort_key timestamp (deviationHistory s @ [snap]));
            now = nowms div 1000;
            cutoffTime = real_of_int now - deviationHistoryWindowHours s * 60 * 60
        in s\<lparr>deviationHistory := filter (\<lambda>e. real_of_int (timestamp e) \<ge> cutoffTime) hist\<rparr>)"

fun remove_older :: "real \<Rightarrow> (int \<times> candle) list \<Rightarrow> rolling_vwap \<Rightarrow> rolling_vwap" where
  \<comment> \<open>The \<open>for ... of this.candles\<close> loop of \<open>removeOldCandles\<close>, over the entries the
      iteration visits.\<close>
  "remove_older cutoffTime [] s = s"
| "remove_older cutoffTime ((k, c) # rest) s =
     remove_older cutoffTime rest
       (if real_of_int k < cutoffTime
        then s\<lparr>totalPriceVolume := totalPriceVolume s - priceVolume c,
               totalVolume := totalVolume s - volume c,
               candles := AList.delete k (candles s)\<rparr>
        else s)"

function enforce_max :: "rolling_vwap \<Rightarrow> error option \<times> rolling_vwap" where
  \<comment> \<open>The \<open>while (this.candles.size > this.maxCandles)\<close> loop. On an empty map
      \<open>Math.min()\<close> is \<open>Infinity\<close>, \<open>get\<close> returns \<open>undefined\<close> and reading its
      \<open>priceVolume\<close> raises.\<close>
  "enforce_max s =
     (if real (length (candles s)) > maxCandles s then
        (if candles s = [] then (Some TypeError, s)
         else
           let oldestStart = min_list (map fst (candles s)) in
           case map_of (candles s) oldestStart of
             None \<Rightarrow> (Some TypeError, s)
           | Some oldCandle \<Rightarrow>
               enforce_max
                 (s\<lparr>totalPriceVolume := totalPriceVolume s - priceVolume oldCandle,
                    totalVolume := totalVolume s - volume oldCandle,
                    candles := AList.delete oldestStart (candles s)\<rparr>))
      else (None, s))"
  by pat_completeness auto
termination
proof (relation "measure (\<lambda>s. length (candles s))")
  show "wf (measure (\<lambda>s. length (candles s)))" by simp
next
  fix s :: rolling_vwap and k c
  assume "map_of (candles s) k = Some c"
  then have "(k, c) \<in> set (candles s)" by (rule map_of_SomeD)
  then have "length (filter (\<lambda>(k', _). k \<noteq> k') (candles s)) < length (candles s)"
    by (intro length_filter_less[of "(k, c)"]) auto
  then show "(s\<lparr>totalPriceVolume := totalPriceVolume s - priceVolume c,
                totalVolume := totalVolume s - volume c,
                candles := AList.delete k (candles s)\<rparr>, s)
             \<in> measure (\<lambda>s. length (candles s))"
    by (simp add: AList.delete_eq)
qed

declare enforce_max.simps [simp del]

definition removeOldCandles :: "int \<Rightarrow> rolling_vwap \<Rightarrow> error option \<times> rolling_vwap" where
  "removeOldCandles nowms s =
     (let now = nowms div 1000;
          cutoffTime = real_of_int now - windowHours s * 60 * 60;
          s1 = remove_older cutoffTime (candles s) s;
          (err, s2) = enforce_max s1
      in case err of
           Some e \<Rightarrow> (Some e, s2)
         | None \<Rightarrow>
             let deviationCutoffTime =
                   real_of_int now - deviationHistoryWindowHours s * 60 * 60
             in (None, s2\<lparr>deviationHistory :=
                            filter (\<lambda>e. real_of_int (timestamp e) \<ge> deviationCutoffTime)
                              (deviationHistory s2)\<rparr>))"

definition updateCandle :: "bar \<Rightarrow> int \<Rightarrow> rolling_vwap \<Rightarrow> error option \<times> rolling_vwap" where
  "updateCandle b nowms s =
     (let tp = (bar_high b + bar_low b + bar_close b) / 3;
          pv = tp * bar_volume b;
          (err, s1) =
            (case map_of (candles s) (bar_start b) of
               Some oldCandle \<Rightarrow>
                 (None, s\<lparr>totalPriceVolume := totalPriceVolume s - priceVolume oldCandle,
                          totalVolume := totalVolume s - volume oldCandle\<rparr>)
             | None \<Rightarrow> removeOldCandles nowms s)
      in case err of
           Some e \<Rightarrow> (Some e, s1)
         | None \<Rightarrow>
             let c = \<lparr>start = bar_start b, high = bar_high b, low = bar_low b,
                      close = bar_close b, volume = bar_volume b, typicalPrice = tp,
                      priceVolume = pv\<rparr>;
                 s2 = s1\<lparr>candles := AList.update (bar_start b) c (candles s1),
                         totalPriceVolume := totalPriceVolume s1 + pv,
                         totalVolume := totalVolume s1 + bar_volume b,
                         rv_currentPrice := Some (bar_close b),
                         currentCandleStart := Some (bar_start b),
                         lastUpdate := Some nowms\<rparr>
             in (None, recordDeviation nowms (updateStats s2)))"

definition vwapAtMoment :: "real \<Rightarrow> bar list \<Rightarrow> nat \<Rightarrow> real option" where
  \<comment> \<open>The inner loop of \<open>initializeDeviationHistory\<close> for the candle at index \<open>i\<close>: the
      sums over the candles \<open>0..i\<close> whose start lies in the window ending at that candle.\<close>
  "vwapAtMoment wHours sortedCandles i =
     (let candleStart = bar_start (sortedCandles ! i);
          windowStart = real_of_int candleStart - wHours * 60 * 60;
          (windowPriceVolume, windowVolume) =
            foldl (\<lambda>(pv, v) wc.
                     if real_of_int (bar_start wc) \<ge> windowStart \<and> bar_start wc \<le> candleStart
                     then (pv + ((bar_high wc + bar_low wc + bar_close wc) / 3) * bar_volume wc,
                           v + bar_volume wc)
                     else (pv, v))
              (0, 0) (take (i + 1) sortedCandles)
      in if windowVolume > 0 then Some (windowPriceVolume / windowVolume) else None)"

definition initializeDeviationHistory :: "bar list \<Rightarrow> int \<Rightarrow> rolling_vwap \<Rightarrow> rolling_vwap" where
  \<comment> \<open>A snapshot is pushed whenever the window volume is positive. If the window VWAP is
      then 0, the source divides by it and stores NaN or an infinity as the percent
      deviation; the value of that one field in the model is not meaningful there.\<close>
  "initializeDeviationHistory allCandles nowms s =
     (let sortedCandles = sort_key bar_start allCandles;
          now = nowms div 1000;
          historyStartTime = real_of_int now - deviationHistoryWindowHours s * 60 * 60;
          pushed =
            concat (map (\<lambda>i.
                      let c = sortedCandles ! i in
                      if real_of_int (bar_start c) < historyStartTime then []
                      else (case vwapAtMoment (windowHours s) sortedCandles i of
                              None \<Rightarrow> []
                            | Some v \<Rightarrow>
                                [\<lparr>timestamp = bar_start c, price = bar_close c, vwap = v,
                                  deviation = bar_close c - v,
                                  snap_deviationPercent = ((bar_close c - v) / v) * 100\<rparr>]))
                    [0 ..< length sortedCandles])
      in s\<lparr>deviationHistory := sort_key timestamp pushed\<rparr>)"

subsection \<open>Sequences of aggregator calls\<close>

datatype vwap_op =
    OpUpdateCandle bar int
  | OpRemoveOldCandles int
  | OpUpdateStats
  | OpUpdatePrice real int

fun apply_op :: "vwap_op \<Rightarrow> rolling_vwap \<Rightarrow> rolling_vwap" where
  \<comment> \<open>One call on the aggregator object; after an exception the object keeps the state it
      had when the exception was raised.\<close>
  "apply_op (OpUpdateCandle b nowms) s = snd (updateCandle b nowms s)"
| "apply_op (OpRemoveOldCandles nowms) s = snd (removeOldCandles nowms s)"
| "apply_op OpUpdateStats s = updateStats s"
| "apply_op (OpUpdatePrice p nowms) s = updatePrice p nowms s"

definition run_ops :: "vwap_op list \<Rightarrow> rolling_vwap \<Rightarrow> rolling_vwap" where
  "run_ops ops s = fold apply_op ops s"

definition retained :: "rolling_vwap \<Rightarrow> candle list" where
  \<comment> \<open>The bars currently held in the primary window.\<close>
  "retained s = map snd (candles s)"

definition bar_priceVolume :: "candle \<Rightarrow> real" where
  \<comment> \<open>A bar's contribution recomputed from its own prices and volume.\<close>
  "bar_priceVolume c = ((high c + low c + close c) / 3) * volume c"

definition recomputeVWAP :: "candle list \<Rightarrow> real option" where
  \<comment> \<open>Reference for the running totals: the sums taken afresh over a list of bars, then the
      rule of \<open>updateStats\<close>.\<close>
  "recomputeVWAP cs =
     (let pv = sum_list (map bar_priceVolume cs);
          v = sum_list (map volume cs)
      in if v > 0 then Some (pv / v) else None)"

definition totals_consistent :: "rolling_vwap \<Rightarrow> bool" where
  \<comment> \<open>Keys are unique (as in any \<open>Map\<close>), every stored candle carries the contribution
      of its own fields, and the running totals are the sums over the stored candles.\<close>
  "totals_consistent s =
     (distinct (map fst (candles s))
      \<and> list_all (\<lambda>c. priceVolume c = bar_priceVolume c) (retained s)
      \<and> totalPriceVolume s = sum_list (map bar_priceVolume (retained s))
      \<and> totalVolume s = sum_list (map volume (retained s)))"

definition history_vwaps_nonzero :: "rolling_vwap \<Rightarrow> bool" where
  "history_vwaps_nonzero s = list_all (\<lambda>d. vwap d \<noteq> 0) (deviationHistory s)"

subsection \<open>Sequences of strategy calls\<close>






definition position_counts_ok :: "ledger \<Rightarrow> bool" where
  \<comment> \<open>The open position, if any, counts as many contracts as its \<open>entries\<close> array holds,
      and at most 2.\<close>
  "position_counts_ok l =
     (case currentPosition l of
        None \<Rightarrow> True
      | Some p \<Rightarrow> totalContractCount p = length (entryArrays l ! entries p)
                  \<and> totalContractCount p \<le> 2)"

definition position_inv :: "ledger \<Rightarrow> bool" where
  \<comment> \<open>What the update handler maintains: the arrays of the open position are allocated, and
      the position was built by one or two entries.\<close>
  "position_inv l =
     (case currentPosition l of
        None \<Rightarrow> True
      | Some p \<Rightarrow> entries p < length (entryArrays l)
                  \<and> totalContractCount p = length (entryArrays l ! entries p)
                  \<and> 1 \<le> totalContractCount p \<and> totalContractCount p \<le> 2)"

subsection \<open>Example inputs\<close>

definition example_percentiles :: percentile_stats where
  "example_percentiles =
     \<lparr>percentile90Percent = Some 0.7, percentile95Percent = Some 0.85,
      percentile10Percent = Some (- 0.75), percentile5Percent = Some (- 0.9)\<rparr>"

definition example_stats :: "real \<Rightarrow> stats" where
  \<comment> \<open>A snapshot with the given percent deviation and a deviation history.\<close>
  "example_stats d =
     \<lparr>currentPrice = Some 90000, deviationPercent = Some d,
      deviationStats = Some example_percentiles\<rparr>"





definition long1_signal :: signal where
  "long1_signal = entry_signal Enter Long Long1 Long1Met"

definition example_bar :: "int \<Rightarrow> real \<Rightarrow> real \<Rightarrow> bar" where
  "example_bar t p v =
     \<lparr>bar_start = t, bar_high = p + 1, bar_low = p - 1, bar_close = p, bar_volume = v\<rparr>"

definition example_ops :: "vwap_op list" where
  \<comment> \<open>Two bars, a revision of the first, a third bar eleven hours later, then a pruning
      pass that evicts the first by age.\<close>
  "example_ops =
     [OpUpdateCandle (example_bar 1000 2 5) 1000000,
      OpUpdateCandle (example_bar 1300 5 1) 1300000,
      OpUpdateCandle (example_bar 1000 2 3) 1301000,
      OpUpdateCandle (example_bar 40000 8 1) 40000000,
      OpRemoveOldCandles 44400000]"

definition zero_price_bar :: bar where
  "zero_price_bar = \<lparr>bar_start = 1000, bar_high = 0, bar_low = 0, bar_close = 0, bar_volume = 1\<rparr>"

definition zero_vwap_state :: rolling_vwap where
  \<comment> \<open>An aggregator whose current VWAP is exactly 0 while price and candle start are set.\<close>
  "zero_vwap_state =
     (new_rolling_vwap 12 72)
       \<lparr>currentVWAP := Some 0, rv_currentPrice := Some 5, currentCandleStart := Some 1000\<rparr>"

definition example_events :: "event list" where
  "example_events =
     [AlgorithmStart,
      Update (example_stats 0.75) 1000,
      Update (example_stats 0.9) 2000,
      Update (example_stats 1.2) 3000]"

section \<open>Properties\<close>

lemmas strategy_params =
  SHORT1_THRESHOLD_PERCENT_def SHORT2_THRESHOLD_PERCENT_def LONG1_THRESHOLD_PERCENT_def
  LONG2_THRESHOLD_PERCENT_def TAKE_PROFIT_THRESHOLD_def SHORT_STOP_LOSS_ABSOLUTE_def
  LONG_STOP_LOSS_ABSOLUTE_def NEUTRAL_MIN_def NEUTRAL_MAX_def

lemmas ledger_params = CONTRACT_SIZE_def TRADING_FEE_def SLIPPAGE_def

subsection \<open>Strategy\<close>















subsection \<open>Ledger\<close>

text \<open>
  Claim C6 (P&L round trip). From a ledger with no position and enough cash, entering a
  long of one contract (0.01 base units) at 90000 and closing at 91000 succeeds and
  realises \<open>0.01 * (91000 * 0.9995 - 90000 * 1.0005) - entryFee - exitFee\<close>, where the entry
  fee is \<open>0.01 * 90000 * 1.0005 * 0.00065\<close> and the exit fee is
  \<open>0.01 * 91000 * 0.9995 * 0.00065\<close>: slippage raises the entry fill and lowers the exit
  fill, and each fee is 0.065% of the notional.
\<close>

theorem pnl_round_trip:
  assumes flat: "currentPosition l = None"
      and funds: "cashBalance l \<ge> 0.01 * (90000 * 1.0005) + 0.01 * 90000 * 1.0005 * 0.00065"
      and long: "sig_type sg = Some Long"
  shows "let (r1, l1) = enterPosition sg 90000 dev1 t1 l;
             (r2, l2) = closePosition xsig 91000 dev2 t2 l1;
             feeIn = 0.01 * 90000 * 1.0005 * 0.00065;
             feeOut = 0.01 * 91000 * 0.9995 * 0.00065;
             net = 0.01 * ((91000 * 0.9995) - (90000 * 1.0005)) - feeIn - feeOut
         in \<exists>pos e ex.
              r1 = EnterSuccess pos e \<and> r2 = CloseSuccess pos ex net
            \<and> contractCount e = 1 \<and> sizeInBTC e = 0.01
            \<and> entryPrice e = 90000 * 1.0005 \<and> exitPrice ex = 91000 * 0.9995
            \<and> fee e = feeIn \<and> exitFee ex = feeOut \<and> netPnL ex = net
            \<and> totalRealizedPnL l2 = totalRealizedPnL l + net
            \<and> currentPosition l2 = None"
  using assms
  by (simp add: enterPosition_def closePosition_def ledger_params Let_def)

theorem pnl_round_trip_witness:
  "currentPosition (new_paper_trading 10000) = None
   \<and> cashBalance (new_paper_trading 10000)
       \<ge> 0.01 * (90000 * 1.0005) + 0.01 * 90000 * 1.0005 * 0.00065
   \<and> sig_type long1_signal = Some Long
   \<and> totalRealizedPnL
        (snd (closePosition (close_signal Manual KillSwitch) 91000 None 1
                (snd (enterPosition long1_signal 90000 None 0 (new_paper_trading 10000)))))
       = 31674013 / 4000000"
  using pnl_round_trip[of "new_paper_trading 10000" long1_signal None 0
          "close_signal Manual KillSwitch" None 1]
  by (simp add: new_paper_trading_def long1_signal_def entry_signal_def enterPosition_def
        closePosition_def ledger_params Let_def)

text \<open>
  Claim C7 (insufficient funds). For a long entry or add, let the fill be
  \<open>price * 1.0005\<close>, the notional \<open>0.01 * fill\<close> and the fee \<open>notional * 0.00065\<close>. If the
  cash balance is below notional + fee, \<open>enterPosition\<close> returns the insufficient-funds
  failure carrying that required amount and the available cash, and the ledger is returned
  as it was: cash, position, trade history, realised P&L and the arrays are unchanged.
\<close>

theorem insufficient_funds_no_mutation:
  assumes long: "sig_type sg = Some Long"
      and short_of_cash:
        "cashBalance l < 0.01 * (px * (1 + 0.0005)) + (0.01 * (px * (1 + 0.0005))) * 0.00065"
  shows "enterPosition sg px dev now l =
           (InsufficientFunds
              (0.01 * (px * (1 + 0.0005)) + (0.01 * (px * (1 + 0.0005))) * 0.00065)
              (cashBalance l), l)"
  using assms
  by (simp add: enterPosition_def ledger_params Let_def)

theorem insufficient_funds_no_mutation_witness:
  "sig_type long1_signal = Some Long
   \<and> cashBalance (new_paper_trading 500)
       < 0.01 * (90000 * (1 + 0.0005)) + (0.01 * (90000 * (1 + 0.0005))) * 0.00065
   \<and> enterPosition long1_signal 90000 (Some (- 0.8)) 0 (new_paper_trading 500)
       = (InsufficientFunds (360414117 / 400000) 500, new_paper_trading 500)"
  using insufficient_funds_no_mutation[of long1_signal "new_paper_trading 500" 90000
          "Some (- 0.8)" 0]
  by (simp add: long1_signal_def entry_signal_def new_paper_trading_def)

text \<open>
  Claim C8, as stated, fails: the insufficient-funds branch returns before the trade log is
  written. A long entry at 90000 on a ledger holding 500 leaves the trade history empty.
\<close>

theorem enter_always_logs_counterexample:
  "tradeHistory (snd (enterPosition long1_signal 90000 (Some (- 0.8)) 0 (new_paper_trading 500)))
     = []"
  by (simp add: enterPosition_def long1_signal_def entry_signal_def new_paper_trading_def
        ledger_params Let_def)

text \<open>
  Claim C8, amended: a call to \<open>enterPosition\<close> either takes the insufficient-funds branch
  (a long signal with cash below the required amount), which returns the ledger unchanged
  and logs nothing, or it succeeds (new position or add) and appends exactly one enter
  record, holding the signal, the entry and the copy of the position, after the records
  already in the trade history.
\<close>

theorem enter_logs_on_success:
  "(case enterPosition sg px dev now l of
      (InsufficientFunds required available, l') \<Rightarrow>
         sig_type sg = Some Long \<and> cashBalance l < required \<and> available = cashBalance l
         \<and> l' = l
    | (EnterSuccess pos e, l') \<Rightarrow>
         tradeHistory l' = tradeHistory l @ [EnterLog sg e pos now]
         \<and> currentPosition l' = Some pos)"
  by (simp add: enterPosition_def Let_def split: option.splits prod.splits)

theorem enter_logs_on_success_witness:
  "length (tradeHistory
      (snd (enterPosition (entry_signal Add Long Long2 Long2Met) 89000 None 1
              (snd (enterPosition long1_signal 90000 None 0 (new_paper_trading 10000))))))
     = 2"
  using enter_logs_on_success[where sg = long1_signal and px = 90000 and dev = None
          and now = 0 and l = "new_paper_trading 10000"]
        enter_logs_on_success[where sg = "entry_signal Add Long Long2 Long2Met" and px = 89000
          and dev = None and now = 1
          and l = "snd (enterPosition long1_signal 90000 None 0 (new_paper_trading 10000))"]
  by (simp add: enterPosition_def long1_signal_def entry_signal_def new_paper_trading_def
        ledger_params Let_def push_def)

subsection \<open>Running totals of the aggregator, in exact arithmetic\<close>

text \<open>
  Claim C1 (running-total consistency) is not a theorem of this development: the program
  breaks it. The program adds and subtracts IEEE doubles, and there the subtraction of a
  candle's contribution does not undo its earlier addition. Insert a bar of volume 0.1 and
  one of volume 0.2, both at price 2, and let a later \<open>removeOldCandles\<close> evict both:
  the program is left with \<open>totalPriceVolume = 5.55e-17\<close> and
  \<open>totalVolume = 2.78e-17\<close> over an empty map, and \<open>updateStats\<close> reports a VWAP of 2
  where the recomputation over the retained bars (none) gives \<open>null\<close>.

  The model's numbers are exact, so it cannot show that run. What the lemmas below show,
  for the model only, is that the bookkeeping is right: every path adds and subtracts the
  contribution of exactly the candle it stores or drops, so that with exact numbers the
  totals would be the sums over the retained candles. The divergence of the program is
  rounding alone.
\<close>

lemma sum_delete:
  "distinct (map fst cs) \<Longrightarrow> map_of cs k = Some c \<Longrightarrow>
   sum_list (map g (AList.delete k cs)) = sum_list (map g cs) - (g (k, c) :: real)"
proof (induction cs)
  case Nil
  then show ?case by simp
next
  case (Cons a cs)
  obtain k' c' where a: "a = (k', c')" by (cases a)
  show ?case
  proof (cases "k' = k")
    case True
    with Cons.prems a have "c' = c" "k \<notin> fst ` set cs" by auto
    then show ?thesis using a True by simp
  next
    case False
    with Cons a show ?thesis by simp
  qed
qed

lemma sum_update:
  "distinct (map fst cs) \<Longrightarrow>
   sum_list (map g (AList.update k c cs)) =
     (case map_of cs k of
        None \<Rightarrow> sum_list (map g cs) + g (k, c)
      | Some old \<Rightarrow> sum_list (map g cs) - g (k, old) + (g (k, c) :: real))"
proof (induction cs)
  case Nil
  then show ?case by simp
next
  case (Cons a cs)
  obtain k' c' where a: "a = (k', c')" by (cases a)
  show ?case
  proof (cases "k' = k")
    case True
    with a show ?thesis by simp
  next
    case False
    with Cons a show ?thesis by (simp split: option.splits)
  qed
qed

lemma list_all_delete:
  "list_all P (map snd cs) \<Longrightarrow> list_all P (map snd (AList.delete k cs))"
  by (induction cs) auto

lemma list_all_update:
  "list_all P (map snd cs) \<Longrightarrow> P c \<Longrightarrow> list_all P (map snd (AList.update k c cs))"
  by (induction cs) auto

lemma consistent_delete:
  assumes "totals_consistent s" and "map_of (candles s) k = Some c"
  shows "totals_consistent
           (s\<lparr>totalPriceVolume := totalPriceVolume s - priceVolume c,
              totalVolume := totalVolume s - volume c,
              candles := AList.delete k (candles s)\<rparr>)"
proof -
  from assms(2) have "(k, c) \<in> set (candles s)" by (rule map_of_SomeD)
  with assms(1) have pv: "priceVolume c = bar_priceVolume c"
    by (force simp: totals_consistent_def retained_def list_all_iff)
  from assms pv show ?thesis
    by (simp add: totals_consistent_def retained_def sum_delete distinct_delete list_all_delete)
qed

lemma consistent_remove_older:
  "totals_consistent s \<Longrightarrow> distinct (map fst xs) \<Longrightarrow> set xs \<subseteq> set (candles s) \<Longrightarrow>
   totals_consistent (remove_older cutoffTime xs s)"
proof (induction xs arbitrary: s)
  case Nil
  then show ?case by simp
next
  case (Cons a xs)
  obtain k c where a: "a = (k, c)" by (cases a)
  from Cons.prems have dist: "distinct (map fst (candles s))"
    by (simp add: totals_consistent_def)
  from Cons.prems(3) a have mem: "(k, c) \<in> set (candles s)" by simp
  with dist have look: "map_of (candles s) k = Some c" by simp
  let ?s' = "s\<lparr>totalPriceVolume := totalPriceVolume s - priceVolume c,
               totalVolume := totalVolume s - volume c,
               candles := AList.delete k (candles s)\<rparr>"
  from Cons.prems(2) a have dxs: "distinct (map fst xs)" and knot: "k \<notin> fst ` set xs" by auto
  show ?case
  proof (cases "real_of_int k < cutoffTime")
    case True
    have c1: "totals_consistent ?s'" by (rule consistent_delete[OF Cons.prems(1) look])
    have "set xs \<subseteq> set (candles ?s')"
    proof
      fix x assume x: "x \<in> set xs"
      with knot have "fst x \<noteq> k" by auto
      moreover from x Cons.prems(3) have "x \<in> set (candles s)" by auto
      ultimately show "x \<in> set (candles ?s')" by (auto simp: AList.delete_eq)
    qed
    from Cons.IH[OF c1 dxs this] a True show ?thesis by simp
  next
    case False
    from Cons.prems(3) have "set xs \<subseteq> set (candles s)" by simp
    from Cons.IH[OF Cons.prems(1) dxs this] a False show ?thesis by simp
  qed
qed

lemma consistent_enforce_max:
  "totals_consistent s \<Longrightarrow> totals_consistent (snd (enforce_max s))"
proof (induction s rule: enforce_max.induct)
  case (1 s)
  show ?case
  proof (cases "real (length (candles s)) > maxCandles s \<and> candles s \<noteq> []")
    case False
    with "1.prems" show ?thesis by (subst enforce_max.simps) auto
  next
    case True
    let ?k = "min_list (map fst (candles s))"
    show ?thesis
    proof (cases "map_of (candles s) ?k")
      case None
      with True "1.prems" show ?thesis by (subst enforce_max.simps) (simp add: Let_def)
    next
      case (Some c)
      let ?s' = "s\<lparr>totalPriceVolume := totalPriceVolume s - priceVolume c,
                   totalVolume := totalVolume s - volume c,
                   candles := AList.delete ?k (candles s)\<rparr>"
      have "totals_consistent ?s'" by (rule consistent_delete[OF "1.prems" Some])
      with "1.IH"[of ?k c] True Some have "totals_consistent (snd (enforce_max ?s'))" by simp
      with True Some show ?thesis by (subst enforce_max.simps) (simp add: Let_def)
    qed
  qed
qed

lemma consistent_history [simp]:
  "totals_consistent (s\<lparr>deviationHistory := h\<rparr>) = totals_consistent s"
  by (simp add: totals_consistent_def retained_def)

lemma consistent_removeOldCandles:
  assumes "totals_consistent s"
  shows "totals_consistent (snd (removeOldCandles nowms s))"
proof -
  let ?cut = "real_of_int (nowms div 1000) - windowHours s * 60 * 60"
  from assms have "distinct (map fst (candles s))" by (simp add: totals_consistent_def)
  from consistent_remove_older[OF assms this subset_refl]
  have "totals_consistent (remove_older ?cut (candles s) s)" .
  then have "totals_consistent (snd (enforce_max (remove_older ?cut (candles s) s)))"
    by (rule consistent_enforce_max)
  then show ?thesis
    by (auto simp: removeOldCandles_def Let_def split: prod.splits option.splits)
qed

lemma consistent_updateStats [simp]:
  "totals_consistent (updateStats s) = totals_consistent s"
  by (simp add: updateStats_def totals_consistent_def retained_def)

lemma consistent_updatePrice [simp]:
  "totals_consistent (updatePrice p t s) = totals_consistent s"
  by (simp add: updatePrice_def totals_consistent_def retained_def)

lemma consistent_recordDeviation [simp]:
  "totals_consistent (recordDeviation t s) = totals_consistent s"
  by (simp add: recordDeviation_def Let_def)

lemma candles_remove_older: "set (candles (remove_older cutoffTime xs s)) \<subseteq> set (candles s)"
proof (induction xs arbitrary: s)
  case Nil
  then show ?case by simp
next
  case (Cons a xs)
  obtain k c where a: "a = (k, c)" by (cases a)
  let ?s' = "s\<lparr>totalPriceVolume := totalPriceVolume s - priceVolume c,
               totalVolume := totalVolume s - volume c,
               candles := AList.delete k (candles s)\<rparr>"
  have "set (candles ?s') \<subseteq> set (candles s)" by (auto simp: AList.delete_eq)
  with Cons.IH[of ?s'] Cons.IH[of s] a show ?case by (cases "real_of_int k < cutoffTime") auto
qed

lemma candles_enforce_max: "set (candles (snd (enforce_max s))) \<subseteq> set (candles s)"
proof (induction s rule: enforce_max.induct)
  case (1 s)
  show ?case
  proof (cases "real (length (candles s)) > maxCandles s \<and> candles s \<noteq> []")
    case False
    then show ?thesis by (subst enforce_max.simps) auto
  next
    case True
    let ?k = "min_list (map fst (candles s))"
    show ?thesis
    proof (cases "map_of (candles s) ?k")
      case None
      with True show ?thesis by (subst enforce_max.simps) (simp add: Let_def)
    next
      case (Some c)
      let ?s' = "s\<lparr>totalPriceVolume := totalPriceVolume s - priceVolume c,
                   totalVolume := totalVolume s - volume c,
                   candles := AList.delete ?k (candles s)\<rparr>"
      have "set (candles ?s') \<subseteq> set (candles s)" by (auto simp: AList.delete_eq)
      with "1.IH"[of ?k c] True Some
      have "set (candles (snd (enforce_max ?s'))) \<subseteq> set (candles s)" by auto
      with True Some show ?thesis by (subst enforce_max.simps) (simp add: Let_def)
    qed
  qed
qed

lemma candles_removeOldCandles:
  "set (candles (snd (removeOldCandles nowms s))) \<subseteq> set (candles s)"
proof -
  let ?s1 = "remove_older (real_of_int (nowms div 1000) - windowHours s * 60 * 60) (candles s) s"
  have "set (candles (snd (enforce_max ?s1))) \<subseteq> set (candles ?s1)"
    by (rule candles_enforce_max)
  also have "\<dots> \<subseteq> set (candles s)" by (rule candles_remove_older)
  finally show ?thesis
    by (auto simp: removeOldCandles_def Let_def split: prod.splits option.splits)
qed

lemma consistent_replace:
  assumes "totals_consistent s"
      and "map_of (candles s) k = Some old"
      and "priceVolume c = bar_priceVolume c"
  shows "totals_consistent
           (s\<lparr>candles := AList.update k c (candles s),
              totalPriceVolume := totalPriceVolume s - priceVolume old + priceVolume c,
              totalVolume := totalVolume s - volume old + volume c\<rparr>)"
proof -
  from assms(2) have "(k, old) \<in> set (candles s)" by (rule map_of_SomeD)
  with assms(1) have pv: "priceVolume old = bar_priceVolume old"
    by (force simp: totals_consistent_def retained_def list_all_iff)
  from assms pv show ?thesis
    by (simp add: totals_consistent_def retained_def sum_update distinct_update list_all_update)
qed

lemma consistent_insert:
  assumes "totals_consistent s"
      and "map_of (candles s) k = None"
      and "priceVolume c = bar_priceVolume c"
  shows "totals_consistent
           (s\<lparr>candles := AList.update k c (candles s),
              totalPriceVolume := totalPriceVolume s + priceVolume c,
              totalVolume := totalVolume s + volume c\<rparr>)"
  using assms
  by (simp add: totals_consistent_def retained_def sum_update distinct_update list_all_update)

lemma consistent_cosmetic [simp]:
  "totals_consistent (s\<lparr>rv_currentPrice := p, currentCandleStart := cs, lastUpdate := t\<rparr>)
     = totals_consistent s"
  by (simp add: totals_consistent_def retained_def)

lemma consistent_updateCandle:
  assumes "totals_consistent s"
  shows "totals_consistent (snd (updateCandle b nowms s))"
proof -
  let ?c = "\<lparr>start = bar_start b, high = bar_high b, low = bar_low b,
             close = bar_close b, volume = bar_volume b,
             typicalPrice = (bar_high b + bar_low b + bar_close b) / 3,
             priceVolume = (bar_high b + bar_low b + bar_close b) / 3 * bar_volume b\<rparr>"
  have pvc: "priceVolume ?c = bar_priceVolume ?c" by (simp add: bar_priceVolume_def)
  show ?thesis
  proof (cases "map_of (candles s) (bar_start b)")
    case (Some old)
    from consistent_replace[OF assms Some pvc]
    show ?thesis using Some
      by (simp add: updateCandle_def Let_def)
  next
    case None
    obtain err s1 where r: "removeOldCandles nowms s = (err, s1)"
      by (cases "removeOldCandles nowms s")
    from consistent_removeOldCandles[OF assms, of nowms] r have c1: "totals_consistent s1"
      by simp
    show ?thesis
    proof (cases err)
      case (Some e)
      with None r c1 show ?thesis by (simp add: updateCandle_def Let_def)
    next
      case noerr: None
      from candles_removeOldCandles[of nowms s] r have "set (candles s1) \<subseteq> set (candles s)"
        by simp
      with None have look: "map_of (candles s1) (bar_start b) = None"
        by (auto simp: map_of_eq_None_iff)
      from consistent_insert[OF c1 look pvc]
      show ?thesis using None r noerr
        by (simp add: updateCandle_def Let_def)
    qed
  qed
qed

lemma consistent_apply_op:
  "totals_consistent s \<Longrightarrow> totals_consistent (apply_op op s)"
  by (cases op) (simp_all add: consistent_updateCandle consistent_removeOldCandles)

lemma consistent_run_ops:
  "totals_consistent s \<Longrightarrow> totals_consistent (run_ops ops s)"
  unfolding run_ops_def
  by (induction ops arbitrary: s) (simp_all add: consistent_apply_op)

lemma consistent_new: "totals_consistent (new_rolling_vwap w d)"
  by (simp add: totals_consistent_def new_rolling_vwap_def retained_def)

lemma example_run:
  "run_ops example_ops (new_rolling_vwap 12 72) =
     \<lparr>windowHours = 12, deviationHistoryWindowHours = 72,
      candleIntervalSeconds = 300, maxCandles = 144,
      candles =
        [(1300, \<lparr>start = 1300, high = 6, low = 4, close = 5, volume = 1,
                 typicalPrice = 5, priceVolume = 5\<rparr>),
         (40000, \<lparr>start = 40000, high = 9, low = 7, close = 8, volume = 1,
                  typicalPrice = 8, priceVolume = 8\<rparr>)],
      totalPriceVolume = 13, totalVolume = 2, currentVWAP = Some (19 / 5),
      rv_currentPrice = Some 8, lastUpdate = Some 40000000,
      currentCandleStart = Some 40000,
      deviationHistory =
        [\<lparr>timestamp = 1000, price = 2, vwap = 11 / 4, deviation = - (3 / 4),
          snap_deviationPercent = - (300 / 11)\<rparr>,
         \<lparr>timestamp = 1300, price = 5, vwap = 5 / 2, deviation = 5 / 2,
          snap_deviationPercent = 100\<rparr>,
         \<lparr>timestamp = 40000, price = 8, vwap = 19 / 5, deviation = 21 / 5,
          snap_deviationPercent = 2100 / 19\<rparr>]\<rparr>"
  by (simp add: run_ops_def example_ops_def example_bar_def new_rolling_vwap_def
        updateCandle_def removeOldCandles_def enforce_max.simps updateStats_def
        recordDeviation_def findIndex_def truthy_def Let_def AList.delete_eq)

lemma exact_totals_consistent:
  assumes "totals_consistent s"
  shows "let s' = run_ops ops s in
           totalPriceVolume s' = sum_list (map bar_priceVolume (retained s'))
         \<and> totalVolume s' = sum_list (map volume (retained s'))
         \<and> currentVWAP (updateStats s') = recomputeVWAP (retained s')"
proof -
  from consistent_run_ops[OF assms, of ops]
  have "totals_consistent (run_ops ops s)" .
  then show ?thesis
    by (simp add: totals_consistent_def updateStats_def recomputeVWAP_def Let_def)
qed

subsection \<open>Percentiles\<close>

text \<open>
  Claim C4 (nearest-rank percentile). \<open>percentile\<close> returns \<open>null\<close> on the empty list.
  On a non-empty list, for \<open>p \<ge> 0\<close> (the closure is called with 1, 5, 10, 90, 95 and 99),
  it returns the element at index \<open>floor(p/100 * n)\<close> clamped to \<open>n - 1\<close>, which is a valid
  index; nothing is interpolated. (A negative \<open>p\<close> reads a negative index, which is
  \<open>undefined\<close>.) For [-0.9, -0.75, 0.7, 0.85] and p = 90 the index is
  \<open>floor(0.9 * 4) = 3\<close> and the result is 0.85.
\<close>

theorem percentile_nearest_rank:
  "percentile [] p = Null
   \<and> (arr \<noteq> [] \<and> 0 \<le> p \<longrightarrow>
        min (nat \<lfloor>(p / 100) * real (length arr)\<rfloor>) (length arr - 1) < length arr
      \<and> percentile arr p =
          Number (arr ! min (nat \<lfloor>(p / 100) * real (length arr)\<rfloor>) (length arr - 1)))
   \<and> \<lfloor>(90 / 100) * real (length [- 0.9, - 0.75, 0.7, 0.85 :: real])\<rfloor> = 3
   \<and> percentile [- 0.9, - 0.75, 0.7, 0.85] 90 = Number 0.85"
proof -
  have a: "percentile [] p = Null" by (simp add: percentile_def)
  have b: "arr \<noteq> [] \<and> 0 \<le> p \<longrightarrow>
        min (nat \<lfloor>(p / 100) * real (length arr)\<rfloor>) (length arr - 1) < length arr
      \<and> percentile arr p =
          Number (arr ! min (nat \<lfloor>(p / 100) * real (length arr)\<rfloor>) (length arr - 1))"
  proof (intro impI, elim conjE)
    assume ne: "arr \<noteq> []" and p: "0 \<le> p"
    let ?i = "\<lfloor>(p / 100) * real (length arr)\<rfloor>"
    from p have i0: "0 \<le> ?i" by simp
    from ne have n: "0 < length arr" by simp
    from i0 n have eq: "nat (min ?i (int (length arr) - 1)) = min (nat ?i) (length arr - 1)"
      by (simp add: min_def nat_le_iff le_nat_iff) linarith
    from i0 n have nonneg: "0 \<le> min ?i (int (length arr) - 1)" by simp
    from n have lt: "min (nat ?i) (length arr - 1) < length arr" by arith
    from ne nonneg have "percentile arr p = Number (arr ! nat (min ?i (int (length arr) - 1)))"
      by (simp add: percentile_def Let_def)
    with eq lt show "min (nat ?i) (length arr - 1) < length arr
      \<and> percentile arr p = Number (arr ! min (nat ?i) (length arr - 1))"
      by simp
  qed
  have c: "\<lfloor>(90 / 100) * real (length [- 0.9, - 0.75, 0.7, 0.85 :: real])\<rfloor> = 3" by simp
  have d: "percentile [- 0.9, - 0.75, 0.7, 0.85] 90 = Number 0.85"
    by (simp add: percentile_def)
  from a b c d show ?thesis by blast
qed

theorem percentile_nearest_rank_witness:
  "[1, 2, 3 :: real] \<noteq> [] \<and> (0::real) \<le> 50 \<and> percentile [1, 2, 3] 50 = Number 2
   \<and> percentile [1, 2, 3] 100 = Number 3"
  using percentile_nearest_rank[of 50 "[1, 2, 3]"] percentile_nearest_rank[of 100 "[1, 2, 3]"]
  by simp

subsection \<open>Zero or missing VWAP\<close>

lemma history_remove_older [simp]:
  "deviationHistory (remove_older cutoffTime xs s) = deviationHistory s"
  by (induction xs arbitrary: s) auto

lemma history_enforce_max [simp]:
  "deviationHistory (snd (enforce_max s)) = deviationHistory s"
proof (induction s rule: enforce_max.induct)
  case (1 s)
  show ?case
  proof (cases "real (length (candles s)) > maxCandles s \<and> candles s \<noteq> []")
    case False
    then show ?thesis by (subst enforce_max.simps) auto
  next
    case True
    let ?k = "min_list (map fst (candles s))"
    show ?thesis
    proof (cases "map_of (candles s) ?k")
      case None
      with True show ?thesis by (subst enforce_max.simps) (simp add: Let_def)
    next
      case (Some c)
      with "1.IH"[of ?k c] True show ?thesis by (subst enforce_max.simps) (simp add: Let_def)
    qed
  qed
qed

lemma list_all_filterI: "list_all P xs \<Longrightarrow> list_all P (filter Q xs)"
  by (induction xs) auto

lemma list_all_list_update: "list_all P xs \<Longrightarrow> P x \<Longrightarrow> list_all P (xs[i := x])"
  by (induction xs arbitrary: i) (auto split: nat.splits)

lemma list_all_sort_key: "list_all P (sort_key f xs) = list_all P xs"
  by (simp add: list_all_iff)

lemma nonzero_recordDeviation:
  assumes "history_vwaps_nonzero s"
  shows "history_vwaps_nonzero (recordDeviation nowms s)"
proof (cases "\<not> truthy (currentVWAP s) \<or> \<not> truthy (rv_currentPrice s)
         \<or> currentCandleStart s = None \<or> currentCandleStart s = Some 0")
  case True
  with assms show ?thesis by (simp add: recordDeviation_def)
next
  case False
  then obtain v where v: "currentVWAP s = Some v" "v \<noteq> 0"
    by (auto simp: truthy_def split: option.splits)
  from assms have h: "list_all (\<lambda>d. vwap d \<noteq> 0) (deviationHistory s)"
    by (simp add: history_vwaps_nonzero_def)
  from False v h show ?thesis
    by (simp add: recordDeviation_def history_vwaps_nonzero_def Let_def list_all_filterI
          list_all_list_update list_all_sort_key split: option.splits)
qed

lemma nonzero_removeOldCandles:
  assumes "history_vwaps_nonzero s"
  shows "history_vwaps_nonzero (snd (removeOldCandles nowms s))"
proof -
  let ?s1 = "remove_older (real_of_int (nowms div 1000) - windowHours s * 60 * 60) (candles s) s"
  obtain err s2 where r: "enforce_max ?s1 = (err, s2)" by (cases "enforce_max ?s1")
  have "deviationHistory (snd (enforce_max ?s1)) = deviationHistory s" by simp
  with r have "deviationHistory s2 = deviationHistory s" by simp
  with assms have "list_all (\<lambda>d. vwap d \<noteq> 0) (deviationHistory s2)"
    by (simp add: history_vwaps_nonzero_def)
  with r show ?thesis
    by (cases err)
       (simp_all add: removeOldCandles_def Let_def history_vwaps_nonzero_def list_all_filterI)
qed

lemma nonzero_other [simp]:
  "history_vwaps_nonzero (updateStats s) = history_vwaps_nonzero s"
  "history_vwaps_nonzero (updatePrice p t s) = history_vwaps_nonzero s"
  by (simp_all add: history_vwaps_nonzero_def updateStats_def updatePrice_def)

lemma nonzero_updateCandle:
  assumes "history_vwaps_nonzero s"
  shows "history_vwaps_nonzero (snd (updateCandle b nowms s))"
proof -
  have fields: "\<And>s' a b c d e f. history_vwaps_nonzero
          (s'\<lparr>candles := a, totalPriceVolume := b, totalVolume := c, rv_currentPrice := d,
              currentCandleStart := e, lastUpdate := f\<rparr>) = history_vwaps_nonzero s'"
    by (simp add: history_vwaps_nonzero_def)
  have fields2: "\<And>s' b c. history_vwaps_nonzero
          (s'\<lparr>totalPriceVolume := b, totalVolume := c\<rparr>) = history_vwaps_nonzero s'"
    by (simp add: history_vwaps_nonzero_def)
  show ?thesis
  proof (cases "map_of (candles s) (bar_start b)")
    case (Some old)
    with assms show ?thesis
      by (simp add: updateCandle_def Let_def nonzero_recordDeviation fields fields2)
  next
    case None
    obtain err s1 where r: "removeOldCandles nowms s = (err, s1)"
      by (cases "removeOldCandles nowms s")
    from nonzero_removeOldCandles[OF assms, of nowms] r have "history_vwaps_nonzero s1" by simp
    with None r show ?thesis
      by (cases err) (simp_all add: updateCandle_def Let_def nonzero_recordDeviation fields)
  qed
qed

lemma nonzero_run_ops:
  "history_vwaps_nonzero s \<Longrightarrow> history_vwaps_nonzero (run_ops ops s)"
  unfolding run_ops_def
proof (induction ops arbitrary: s)
  case Nil
  then show ?case by simp
next
  case (Cons op ops)
  have "history_vwaps_nonzero (apply_op op s)"
    using Cons.prems
    by (cases op) (simp_all add: nonzero_updateCandle nonzero_removeOldCandles)
  with Cons.IH show ?case by simp
qed

text \<open>
  Claim C10, as stated, fails in its last part: the historical backfill
  \<open>initializeDeviationHistory\<close> only skips a candle when the window volume is not positive,
  so a window whose volume-weighted price is exactly 0 puts a snapshot with VWAP 0 into the
  deviation history (and divides by that VWAP). One bar with zero prices and volume 1 does.
\<close>

theorem backfill_zero_vwap_counterexample:
  "map vwap (deviationHistory
      (initializeDeviationHistory [zero_price_bar] 1000000 (new_rolling_vwap 12 72))) = [0]"
  by (simp add: initializeDeviationHistory_def vwapAtMoment_def zero_price_bar_def
        new_rolling_vwap_def Let_def)

text \<open>
  Claim C10, amended: \<open>getDeviation\<close> and \<open>getDeviationPercent\<close> return \<open>null\<close> when the
  VWAP or the current price is absent or exactly 0, so \<open>getDeviationPercent\<close> divides only
  by a non-zero VWAP; under the same condition \<open>recordDeviation\<close> changes nothing.
  Hence \<open>recordDeviation\<close>, and every sequence of \<open>updateCandle\<close>, \<open>removeOldCandles\<close>,
  \<open>updateStats\<close> and \<open>updatePrice\<close> calls, keeps a deviation history that holds no
  zero-VWAP snapshot. Nothing is said about the backfill.
\<close>

theorem zero_vwap_guard:
  "((currentVWAP s = None \<or> currentVWAP s = Some 0
       \<or> rv_currentPrice s = None \<or> rv_currentPrice s = Some 0)
      \<longrightarrow> getDeviation s = None \<and> getDeviationPercent s = None
          \<and> recordDeviation nowms s = s)
   \<and> (getDeviationPercent s = Some r
      \<longrightarrow> (\<exists>v p. currentVWAP s = Some v \<and> v \<noteq> 0 \<and> rv_currentPrice s = Some p \<and> p \<noteq> 0
                 \<and> r = ((p - v) / v) * 100))
   \<and> (history_vwaps_nonzero s
      \<longrightarrow> history_vwaps_nonzero (recordDeviation nowms s)
          \<and> history_vwaps_nonzero (run_ops ops s))"
proof -
  have a: "(currentVWAP s = None \<or> currentVWAP s = Some 0
       \<or> rv_currentPrice s = None \<or> rv_currentPrice s = Some 0)
      \<longrightarrow> getDeviation s = None \<and> getDeviationPercent s = None
          \<and> recordDeviation nowms s = s"
    by (auto simp: getDeviation_def getDeviationPercent_def recordDeviation_def truthy_def)
  have b: "getDeviationPercent s = Some r
      \<longrightarrow> (\<exists>v p. currentVWAP s = Some v \<and> v \<noteq> 0 \<and> rv_currentPrice s = Some p \<and> p \<noteq> 0
                 \<and> r = ((p - v) / v) * 100)"
    by (auto simp: getDeviationPercent_def truthy_def split: option.splits if_splits)
  from a b nonzero_recordDeviation nonzero_run_ops show ?thesis by blast
qed

theorem zero_vwap_guard_witness:
  "currentVWAP zero_vwap_state = Some 0
   \<and> getDeviation zero_vwap_state = None
   \<and> getDeviationPercent zero_vwap_state = None
   \<and> recordDeviation 1000000 zero_vwap_state = zero_vwap_state
   \<and> history_vwaps_nonzero (new_rolling_vwap 12 72)
   \<and> history_vwaps_nonzero (run_ops example_ops (new_rolling_vwap 12 72))
   \<and> getDeviationPercent (run_ops example_ops (new_rolling_vwap 12 72)) = Some (2100 / 19)
   \<and> (\<exists>v. currentVWAP (run_ops example_ops (new_rolling_vwap 12 72)) = Some v \<and> v \<noteq> 0)"
proof -
  note g1 = zero_vwap_guard[where s = zero_vwap_state and nowms = 1000000 and r = 0
              and ops = "[]"]
  note g2 = zero_vwap_guard[where s = "new_rolling_vwap 12 72" and nowms = 0 and r = 0
              and ops = example_ops]
  note g3 = zero_vwap_guard[where s = "run_ops example_ops (new_rolling_vwap 12 72)"
              and nowms = 0 and r = "2100 / 19" and ops = "[]"]
  have z: "currentVWAP zero_vwap_state = Some 0" by (simp add: zero_vwap_state_def)
  with g1 have p1: "getDeviation zero_vwap_state = None"
    "getDeviationPercent zero_vwap_state = None"
    "recordDeviation 1000000 zero_vwap_state = zero_vwap_state" by blast+
  have h0: "history_vwaps_nonzero (new_rolling_vwap 12 72)"
    by (simp add: history_vwaps_nonzero_def new_rolling_vwap_def)
  with g2 have p2: "history_vwaps_nonzero (run_ops example_ops (new_rolling_vwap 12 72))"
    by blast
  have gp: "getDeviationPercent (run_ops example_ops (new_rolling_vwap 12 72)) = Some (2100 / 19)"
    by (simp add: example_run getDeviationPercent_def truthy_def)
  with g3 have p3: "\<exists>v. currentVWAP (run_ops example_ops (new_rolling_vwap 12 72)) = Some v \<and> v \<noteq> 0"
    by blast
  from z p1 h0 p2 gp p3 show ?thesis by blast
qed

subsection \<open>Position size under the update handler\<close>

lemma rules_enter_no_position:
  "action (evaluateEntry_rules st p) = Enter \<Longrightarrow> p = None"
  by (auto simp: evaluateEntry_rules_def Let_def plain_signal_def entry_signal_def
           split: option.splits if_splits)

lemma rules_add_single_entry:
  "action (evaluateEntry_rules st p) = Add \<Longrightarrow>
   \<exists>pos. p = Some pos \<and> view_totalContractCount pos = 1"
  by (auto simp: evaluateEntry_rules_def Let_def plain_signal_def entry_signal_def
           split: option.splits if_splits)

lemma evaluateEntry_signal:
  "evaluateEntry st p s = (Inr sg, s') \<Longrightarrow> action sg = Enter \<or> action sg = Add \<Longrightarrow>
   sg = evaluateEntry_rules st p"
  by (auto simp: evaluateEntry_def Let_def plain_signal_def split: if_splits)

lemma getPosition_None [simp]: "(getPosition l = None) = (currentPosition l = None)"
  by (simp add: getPosition_def split: option.splits)

lemma getPosition_count:
  "getPosition l = Some pv \<Longrightarrow>
   \<exists>p. currentPosition l = Some p \<and> view_totalContractCount pv = totalContractCount p"
  by (auto simp: getPosition_def split: option.splits)

lemma inv_closePosition: "position_inv (snd (closePosition sg px dev now l))"
  by (simp add: closePosition_def position_inv_def Let_def split: option.splits)

lemma inv_enter_new:
  "currentPosition l = None \<Longrightarrow> position_inv (snd (enterPosition sg px dev now l))"
  by (simp add: enterPosition_def position_inv_def Let_def nth_append)

lemma inv_enter_add:
  assumes "position_inv l" and "currentPosition l = Some p" and "totalContractCount p = 1"
  shows "position_inv (snd (enterPosition sg px dev now l))"
  using assms
  by (simp add: enterPosition_def position_inv_def Let_def push_def)

lemma inv_enter_signalled:
  assumes inv: "position_inv l"
      and ev: "evaluateEntry st (getPosition l) s = (Inr sg, s')"
      and act: "action sg = Enter \<or> action sg = Add"
  shows "position_inv (snd (enterPosition sg px dev now l))"
proof -
  from evaluateEntry_signal[OF ev act] have sg: "sg = evaluateEntry_rules st (getPosition l)" .
  from act show ?thesis
  proof
    assume "action sg = Enter"
    with sg rules_enter_no_position[of st "getPosition l"]
    have "currentPosition l = None" by simp
    then show ?thesis by (rule inv_enter_new)
  next
    assume "action sg = Add"
    with sg rules_add_single_entry[of st "getPosition l"]
    obtain pv where pv: "getPosition l = Some pv" "view_totalContractCount pv = 1" by auto
    from getPosition_count[OF pv(1)] pv(2)
    obtain p where "currentPosition l = Some p" "totalContractCount p = 1" by auto
    with inv show ?thesis by (rule inv_enter_add)
  qed
qed

lemma inv_on_update:
  assumes "position_inv (paperTrading sys)"
  shows "position_inv (paperTrading (on_update st now sys))"
proof (cases "algorithmRunning sys")
  case False
  with assms show ?thesis by (simp add: on_update_def)
next
  case True
  define e where "e = (case getPosition (paperTrading sys) of
                None \<Rightarrow> (strat sys, paperTrading sys)
              | Some pv \<Rightarrow>
                  let (exitSignal, s') = evaluateExit st (Some pv) (strat sys) in
                  if action exitSignal = Close then
                    (s', snd (closePosition exitSignal (num (currentPrice st))
                                (deviationPercent st) now (paperTrading sys)))
                  else (s', paperTrading sys))"
  obtain s1 l1 where e1: "e = (s1, l1)" by (cases e)
  have inv1: "position_inv l1"
  proof (cases "getPosition (paperTrading sys)")
    case None
    with e1 assms show ?thesis by (simp add: e_def)
  next
    case (Some pv)
    with e1 assms inv_closePosition show ?thesis
      by (auto simp: e_def Let_def split: prod.splits if_splits)
  qed
  obtain r s2 where ev: "evaluateEntry st (getPosition l1) s1 = (r, s2)"
    by (cases "evaluateEntry st (getPosition l1) s1")
  have res: "paperTrading (on_update st now sys) =
        (case r of
           Inl err \<Rightarrow> l1
         | Inr entrySignal \<Rightarrow>
             if action entrySignal = Enter \<or> action entrySignal = Add
             then snd (enterPosition entrySignal (num (currentPrice st))
                         (deviationPercent st) now l1)
             else l1)"
    using True e1 ev unfolding on_update_def e_def[symmetric]
    by (simp split: sum.splits)
  show ?thesis
  proof (cases r)
    case (Inl err)
    with res inv1 show ?thesis by simp
  next
    case (Inr sg)
    show ?thesis
    proof (cases "action sg = Enter \<or> action sg = Add")
      case False
      with res Inr inv1 show ?thesis by simp
    next
      case act: True
      from ev Inr have "evaluateEntry st (getPosition l1) s1 = (Inr sg, s2)" by simp
      from inv_enter_signalled[OF inv1 this act] res Inr act show ?thesis by simp
    qed
  qed
qed

lemma inv_manual_close:
  "position_inv (paperTrading sys) \<Longrightarrow> position_inv (paperTrading (manual_close why st now sys))"
  by (simp add: manual_close_def Let_def inv_closePosition split: option.splits)

lemma inv_handle:
  "position_inv (paperTrading sys) \<Longrightarrow> position_inv (paperTrading (handle ev sys))"
  by (cases ev) (simp_all add: inv_on_update inv_manual_close)

lemma inv_run_events:
  "position_inv (paperTrading sys) \<Longrightarrow> position_inv (paperTrading (run_events evs sys))"
  unfolding run_events_def
  by (induction evs arbitrary: sys) (simp_all add: inv_handle)

lemma inv_counts: "position_inv l \<Longrightarrow> position_counts_ok l"
  by (simp add: position_inv_def position_counts_ok_def split: option.splits)

lemma example_events_run:
  "map_option totalContractCount
     (currentPosition (paperTrading (run_events example_events new_system))) = Some 2
   \<and> map length (entryArrays (paperTrading (run_events example_events new_system))) = [2]"
  by (simp add: run_events_def example_events_def new_system_def new_strategy_def
        new_paper_trading_def on_update_def getPosition_def evaluateExit_def evaluateEntry_def
        evaluateEntry_rules_def enterPosition_def closePosition_def example_stats_def
        example_percentiles_def in_neutral_range_def num_def or_zero_def strategy_params
        ledger_params entry_signal_def plain_signal_def close_signal_def push_def Let_def)

text \<open>
  Claim C9 (position size). In every state reached from the initial system (any starting
  balance) by update snapshots, algorithm start, kill switch and restart, an open position's
  \<open>totalContractCount\<close> equals the length of its \<open>entries\<close> array and is at most 2.
\<close>

theorem position_count_bounded:
  "position_counts_ok
     (paperTrading (run_events evs (new_system\<lparr>paperTrading := new_paper_trading balance\<rparr>)))"
proof -
  have "position_inv (paperTrading (new_system\<lparr>paperTrading := new_paper_trading balance\<rparr>))"
    by (simp add: position_inv_def new_paper_trading_def)
  then show ?thesis by (intro inv_counts inv_run_events)
qed

theorem position_count_bounded_witness:
  "position_counts_ok (paperTrading (run_events example_events new_system))
   \<and> map_option totalContractCount
       (currentPosition (paperTrading (run_events example_events new_system))) = Some 2
   \<and> map length (entryArrays (paperTrading (run_events example_events new_system))) = [2]"
  using position_count_bounded[of example_events 10000]
  by (simp add: example_events_run) (simp add: new_system_def)

end
